theory Spec2Isabelle
  imports Complex_Main
begin

section \<open>JavaScript values that leave a function by throwing\<close>

text \<open>
  Every \<^verbatim>\<open>throw\<close> of the sources and of the libraries they call is a value of
  \<open>js_error\<close>. The constructor is the error's class, the last string its
  \<^verbatim>\<open>message\<close>. \<open>MongoServerError\<close> carries the driver's numeric \<^verbatim>\<open>code\<close>;
  \<open>GraphQLError\<close> carries \<^verbatim>\<open>extensions.code\<close> and \<^verbatim>\<open>extensions.http.status\<close>.
  The messages of the errors that the store and the token library raise are shortened;
  the sources only copy them into the envelope.
\<close>

datatype js_error =
    Error string
  | TypeError string
  | CastError string
  | ValidationError string
  | MongoServerError int string
  | JsonWebTokenError string
  | GraphQLError string string int

fun err_name :: "js_error \<Rightarrow> string" where
  "err_name (Error m) = ''Error''"
| "err_name (TypeError m) = ''TypeError''"
| "err_name (CastError m) = ''CastError''"
| "err_name (ValidationError m) = ''ValidationError''"
| "err_name (MongoServerError c m) = ''MongoServerError''"
| "err_name (JsonWebTokenError m) = ''JsonWebTokenError''"
| "err_name (GraphQLError m c s) = ''GraphQLError''"

fun err_code :: "js_error \<Rightarrow> int option" where
  "err_code (MongoServerError c m) = Some c"
| "err_code e = None"

fun err_message :: "js_error \<Rightarrow> string" where
  "err_message (Error m) = m"
| "err_message (TypeError m) = m"
| "err_message (CastError m) = m"
| "err_message (ValidationError m) = m"
| "err_message (MongoServerError c m) = m"
| "err_message (JsonWebTokenError m) = m"
| "err_message (GraphQLError m c s) = m"

section \<open>The account document and its schema (models/user.ts)\<close>

text \<open>
  A user document as the collection holds it and as a resolver sees it after loading.
  A field that is \<^verbatim>\<open>undefined\<close> or \<^verbatim>\<open>null\<close> is \<open>None\<close>. \<open>doc_id\<close> is the
  \<^verbatim>\<open>_id\<close> of the source, as its canonical (lower-case) hexadecimal string. The role is the one a resolver
  reads: a stored document without a role is read with the schema's default.
\<close>

record user_doc =
  doc_id :: string
  username :: "string option"
  email :: "string option"
  password :: "string option"
  address :: "string option"
  role :: string

text \<open>The options a schema path is declared with.\<close>

record path_opts =
  required :: bool
  unique :: bool
  default_value :: "string option"

record user_schema =
  username_path :: path_opts
  email_path :: path_opts
  password_path :: path_opts
  address_path :: path_opts
  role_path :: path_opts

definition plain_path :: path_opts where
  "plain_path = \<lparr>required = False, unique = False, default_value = None\<rparr>"

text \<open>\<^verbatim>\<open>userSchema\<close> of models/user.ts, lines 15 to 21.\<close>

definition userSchema :: user_schema where
  "userSchema =
     \<lparr>username_path = plain_path\<lparr>required := True\<rparr>,
      email_path = plain_path\<lparr>required := True, unique := True\<rparr>,
      password_path = plain_path,
      address_path = plain_path\<lparr>required := True\<rparr>,
      role_path = plain_path\<lparr>default_value := Some ''User''\<rparr>\<rparr>"

text \<open>\<^verbatim>\<open>userSchema\<close> of the compiled dist/models/user.js, lines 4 to 10: an older
  build, in which the password is required and the email carries no unique index.\<close>

definition userSchema_dist :: user_schema where
  "userSchema_dist =
     \<lparr>username_path = plain_path\<lparr>required := True\<rparr>,
      email_path = plain_path\<lparr>required := True\<rparr>,
      password_path = plain_path\<lparr>required := True\<rparr>,
      address_path = plain_path\<lparr>required := True\<rparr>,
      role_path = plain_path\<lparr>default_value := Some ''User''\<rparr>\<rparr>"

section \<open>What lies outside the repository\<close>

text \<open>
  What \<^verbatim>\<open>jwt.verify\<close> returns: a string, or an object of claims. Only the keys of
  the object and the string value of \<^verbatim>\<open>userId\<close> are read by the sources.
\<close>

datatype jwt_decoded =
    DecodedString string
  | DecodedObject "(string \<times> string) list"

text \<open>
  The libraries and the process configuration are parameters of the model: the
  theorems about the resolvers are stated for every platform.
  \<^item> \<open>JWT_SECRET\<close>: \<^verbatim>\<open>process.env.JWT_SECRET\<close>, \<open>None\<close> when unset.
  \<^item> \<open>jwt_verify token secret\<close>: jsonwebtoken's \<^verbatim>\<open>verify\<close> at the instant of the
    request; \<open>Inl\<close> when it throws (malformed token, wrong signature, expired).
  \<^item> \<open>jwt_sign payload secret\<close>: jsonwebtoken's \<^verbatim>\<open>sign\<close> with
    \<^verbatim>\<open>{ expiresIn: "1h" }\<close>.
  \<^item> \<open>bcrypt_hash plaintext salt\<close> and \<open>bcrypt_compare candidate hash\<close>: bcryptjs.
  \<^item> \<open>castObjectId s\<close>: mongoose's cast of a string to an ObjectId, as the
    identifier's canonical (lower-case) hexadecimal string; \<open>None\<close> when the cast fails.
  \<^item> \<open>sort_docs key docs\<close>: the order the store gives for \<^verbatim>\<open>Query.sort(key)\<close>.
\<close>

record platform =
  JWT_SECRET :: "string option"
  jwt_verify :: "string \<Rightarrow> string option \<Rightarrow> js_error + jwt_decoded"
  jwt_sign :: "(string \<times> string) list \<Rightarrow> string option \<Rightarrow> js_error + string"
  bcrypt_hash :: "string \<Rightarrow> string \<Rightarrow> string"
  bcrypt_compare :: "string \<Rightarrow> string \<Rightarrow> bool"
  castObjectId :: "string \<Rightarrow> string option"
  sort_docs :: "string \<Rightarrow> user_doc list \<Rightarrow> user_doc list"

text \<open>
  The random draws of one request: the \<^verbatim>\<open>_id\<close> that \<^verbatim>\<open>new User(...)\<close> assigns and
  the salt that \<^verbatim>\<open>bcrypt.genSalt(10)\<close> returns.
\<close>

record draws =
  new_ObjectId :: string
  genSalt :: string

section \<open>The document store (mongoose over MongoDB)\<close>

text \<open>The collection, in the store's default order.\<close>

type_synonym collection = "user_doc list"

text \<open>
  A mongoose document in memory: its current field values, whether it was built by
  \<^verbatim>\<open>new User(...)\<close> and not yet saved, and the paths assigned since.
\<close>

record document =
  contents :: user_doc
  isNew :: bool
  modifiedPaths :: "string list"

definition hydrate :: "user_doc \<Rightarrow> document" where
  "hydrate d = \<lparr>contents = d, isNew = False, modifiedPaths = []\<rparr>"

definition isModified :: "document \<Rightarrow> string \<Rightarrow> bool" where
  "isModified d p = (p \<in> set (modifiedPaths d))"

text \<open>
  \<^verbatim>\<open>User.findById(id)\<close>: the argument is cast to an ObjectId first; the result is a
  cast error, \<^verbatim>\<open>null\<close>, or the first document whose id is the cast one.
\<close>

definition findById :: "platform \<Rightarrow> collection \<Rightarrow> string \<Rightarrow> js_error + user_doc option" where
  "findById P db i =
     (case castObjectId P i of
        None \<Rightarrow> Inl (CastError ''Cast to ObjectId failed'')
      | Some oid \<Rightarrow> Inr (find (\<lambda>d. doc_id d = oid) db))"

text \<open>\<^verbatim>\<open>User.findOne({ email })\<close>.\<close>

definition findOne_email :: "collection \<Rightarrow> string \<Rightarrow> user_doc option" where
  "findOne_email db e = find (\<lambda>d. email d = Some e) db"

text \<open>\<^verbatim>\<open>User.findByIdAndDelete(id)\<close>: removes the document it returns.\<close>

definition findByIdAndDelete ::
  "platform \<Rightarrow> collection \<Rightarrow> string \<Rightarrow> js_error + (user_doc option \<times> collection)" where
  "findByIdAndDelete P db i =
     (case findById P db i of
        Inl e \<Rightarrow> Inl e
      | Inr None \<Rightarrow> Inr (None, db)
      | Inr (Some d) \<Rightarrow> Inr (Some d, remove1 d db))"

text \<open>
  The required validator of a String path rejects a missing value and the empty string.
\<close>

definition checkRequired :: "path_opts \<Rightarrow> string option \<Rightarrow> bool" where
  "checkRequired po v = (if required po then (case v of None \<Rightarrow> False | Some s \<Rightarrow> s \<noteq> []) else True)"

text \<open>
  Validation before a save: every required path of the schema must hold a value. The
  error names the paths that failed, in the order of the schema.
\<close>

definition required_failures :: "user_schema \<Rightarrow> user_doc \<Rightarrow> string list" where
  "required_failures S d =
     (if checkRequired (username_path S) (username d) then [] else [''username''])
     @ (if checkRequired (email_path S) (email d) then [] else [''email''])
     @ (if checkRequired (password_path S) (password d) then [] else [''password''])
     @ (if checkRequired (address_path S) (address d) then [] else [''address''])"

fun join :: "string \<Rightarrow> string list \<Rightarrow> string" where
  "join sep [] = []"
| "join sep [x] = x"
| "join sep (x # y # ys) = x @ sep @ join sep (y # ys)"

definition validation_message :: "string list \<Rightarrow> string" where
  "validation_message ps =
     ''User validation failed: ''
     @ join '', '' (map (\<lambda>p. p @ '': Path `'' @ p @ ''` is required.'') ps)"

definition validate :: "user_schema \<Rightarrow> user_doc \<Rightarrow> js_error + unit" where
  "validate S d =
     (if required_failures S d = [] then Inr ()
      else Inl (ValidationError (validation_message (required_failures S d))))"

text \<open>
  The pre-save hook of models/user.ts, lines 23 to 30. \<^verbatim>\<open>bcrypt.hash\<close> throws when
  it is handed no string.
\<close>

definition pre_save :: "platform \<Rightarrow> draws \<Rightarrow> document \<Rightarrow> js_error + document" where
  "pre_save P R d =
     (if \<not> isModified d ''password'' then Inr d
      else (let salt = genSalt R in
            case password (contents d) of
              None \<Rightarrow> Inl (Error ''Illegal arguments: undefined, string'')
            | Some p \<Rightarrow> Inr (d\<lparr>contents := (contents d)\<lparr>password := Some (bcrypt_hash P p salt)\<rparr>\<rparr>)))"

text \<open>
  \<^verbatim>\<open>insertOne\<close>: the store refuses a second document with the same \<^verbatim>\<open>_id\<close>, and,
  where the schema declares the email unique, with the same email; both with the
  driver's duplicate-key code 11000.
\<close>

definition insertOne :: "user_schema \<Rightarrow> collection \<Rightarrow> user_doc \<Rightarrow> js_error + collection" where
  "insertOne S db d =
     (if doc_id d \<in> set (map doc_id db)
         \<or> (unique (email_path S) \<and> email d \<in> set (map email db))
      then Inl (MongoServerError 11000 ''E11000 duplicate key error collection'')
      else Inr (db @ [d]))"

text \<open>The position of the first document with the given id.\<close>

fun index_of :: "string \<Rightarrow> collection \<Rightarrow> nat option" where
  "index_of i [] = None"
| "index_of i (d # ds) =
     (if doc_id d = i then Some 0 else map_option Suc (index_of i ds))"

text \<open>
  \<^verbatim>\<open>updateOne\<close> for a loaded document: writes the document's contents over the stored
  document with its id. A changed email that another document already has is refused
  where the schema declares the email unique.
\<close>

definition updateOne :: "user_schema \<Rightarrow> collection \<Rightarrow> document \<Rightarrow> js_error + collection" where
  "updateOne S db d =
     (case index_of (doc_id (contents d)) db of
        None \<Rightarrow> Inr db
      | Some k \<Rightarrow>
          (if unique (email_path S) \<and> isModified d ''email''
               \<and> email (contents d) \<in> set (map email (take k db @ drop (Suc k) db))
           then Inl (MongoServerError 11000 ''E11000 duplicate key error collection'')
           else Inr (db[k := contents d])))"

text \<open>\<^verbatim>\<open>doc.save()\<close>: validation, then the pre-save hook, then the write.\<close>

definition save ::
  "platform \<Rightarrow> user_schema \<Rightarrow> draws \<Rightarrow> collection \<Rightarrow> document \<Rightarrow> js_error + (document \<times> collection)" where
  "save P S R db d =
     (case validate S (contents d) of
        Inl e \<Rightarrow> Inl e
      | Inr _ \<Rightarrow>
         (case pre_save P R d of
            Inl e \<Rightarrow> Inl e
          | Inr d' \<Rightarrow>
             (case (if isNew d' then insertOne S db (contents d') else updateOne S db d') of
                Inl e \<Rightarrow> Inl e
              | Inr db' \<Rightarrow> Inr (d'\<lparr>isNew := False, modifiedPaths := []\<rparr>, db'))))"

section \<open>The per-request context (the server's \<^verbatim>\<open>context\<close> function)\<close>

text \<open>
  \<^verbatim>\<open>String.prototype.split\<close> with a one-character separator: the pieces between the
  separators, empty pieces kept; never the empty list.
\<close>

fun split :: "char \<Rightarrow> string \<Rightarrow> string list" where
  "split c [] = [[]]"
| "split c (x # xs) =
     (let r = split c xs in if x = c then [] # r else (x # hd r) # tl r)"

text \<open>Reading an array at an index: \<^verbatim>\<open>undefined\<close> past its end.\<close>

definition nth_opt :: "'a list \<Rightarrow> nat \<Rightarrow> 'a option" where
  "nth_opt xs i = (if i < length xs then Some (xs ! i) else None)"

text \<open>\<^verbatim>\<open>{ token, user }\<close>, where \<^verbatim>\<open>user\<close> is \<^verbatim>\<open>null\<close> when no document has the id.\<close>

record request_context =
  ctx_token :: string
  ctx_user :: "user_doc option"

definition invalid_token :: js_error where
  "invalid_token = GraphQLError ''Invalid token'' ''INVALID_TOKEN'' 401"

text \<open>The body of the \<^verbatim>\<open>try\<close> block of the context function.\<close>

definition context_try :: "platform \<Rightarrow> collection \<Rightarrow> string \<Rightarrow> js_error + request_context" where
  "context_try P db tok =
     (case jwt_verify P tok (JWT_SECRET P) of
        Inl e \<Rightarrow> Inl e
      | Inr (DecodedString s) \<Rightarrow> Inl invalid_token
      | Inr (DecodedObject obj) \<Rightarrow>
          (case map_of obj ''userId'' of
             None \<Rightarrow> Inl invalid_token
           | Some userId \<Rightarrow>
               (case findById P db userId of
                  Inl e \<Rightarrow> Inl e
                | Inr u \<Rightarrow> Inr \<lparr>ctx_token = tok, ctx_user = u\<rparr>)))"

text \<open>
  The context function, lines 547 to 573 of the server. Its argument is
  \<^verbatim>\<open>req.headers.authorization\<close>, \<open>None\<close> when the request has no such header; the
  call of \<^verbatim>\<open>split\<close> on \<^verbatim>\<open>undefined\<close> throws outside the \<^verbatim>\<open>try\<close>. A token that
  is \<^verbatim>\<open>undefined\<close> or empty is falsy, and the function then returns \<^verbatim>\<open>undefined\<close>
  (\<open>Inr None\<close>).
\<close>

definition context_fn ::
  "platform \<Rightarrow> collection \<Rightarrow> string option \<Rightarrow> js_error + request_context option" where
  "context_fn P db authorization =
     (case authorization of
        None \<Rightarrow> Inl (TypeError ''Cannot read properties of undefined (reading 'split')'')
      | Some h \<Rightarrow>
          (case nth_opt (split (CHR '' '') h) 1 of
             None \<Rightarrow> Inr None
           | Some tok \<Rightarrow>
               if tok = [] then Inr None
               else (case context_try P db tok of
                       Inl e \<Rightarrow> Inl invalid_token
                     | Inr c \<Rightarrow> Inr (Some c))))"

section \<open>Resolver arguments and results\<close>

record PaginationInput =
  limit :: "int option"
  page :: "int option"

record SortInput =
  sortBy :: "string option"

record UserInput =
  username_in :: "string option"
  email_in :: "string option"
  password_in :: "string option"
  address_in :: "string option"

record UpdateUserInput =
  username_up :: "string option"
  email_up :: "string option"
  address_up :: "string option"

record PageInfo =
  totalUsers :: int
  totalPages :: int
  currentPage :: "int option"

text \<open>
  The object a resolver returns. A key the object literal does not have is \<open>None\<close>.
  The key \<^verbatim>\<open>data\<close> holds one document in \<^verbatim>\<open>createUser\<close> and the list of documents
  in \<^verbatim>\<open>getUsers\<close>.
\<close>

datatype payload = OneUser user_doc | ManyUsers "user_doc list"

record envelope =
  status :: int
  success :: bool
  message :: "string option"
  error :: "string option"
  data :: "payload option"
  user :: "user_doc option"
  token :: "string option"
  userData :: "user_doc option"
  pageInfo :: "PageInfo option"

definition reply :: "int \<Rightarrow> bool \<Rightarrow> envelope" where
  "reply st ok =
     \<lparr>status = st, success = ok, message = None, error = None, data = None,
      user = None, token = None, userData = None, pageInfo = None\<rparr>"

definition forbidden :: envelope where
  "forbidden = (reply 403 False)\<lparr>message := Some ''Forbidden''\<rparr>"

text \<open>
  The third argument of a resolver is the context object. It is \<open>None\<close> for the empty
  object that the server passes when the context function returned \<^verbatim>\<open>undefined\<close>.
  The pattern \<^verbatim>\<open>{ user }\<close> then binds \<^verbatim>\<open>undefined\<close>; it binds \<^verbatim>\<open>null\<close> when the
  context function found no document.
\<close>

definition user_of :: "request_context option \<Rightarrow> user_doc option" where
  "user_of ctx = (case ctx of None \<Rightarrow> None | Some c \<Rightarrow> ctx_user c)"

text \<open>\<^verbatim>\<open>user.role\<close>: reading a property of \<^verbatim>\<open>undefined\<close> or of \<^verbatim>\<open>null\<close> throws.\<close>

definition role_of :: "request_context option \<Rightarrow> js_error + string" where
  "role_of ctx =
     (case ctx of
        None \<Rightarrow> Inl (TypeError ''Cannot read properties of undefined (reading 'role')'')
      | Some c \<Rightarrow>
          (case ctx_user c of
             None \<Rightarrow> Inl (TypeError ''Cannot read properties of null (reading 'role')'')
           | Some d \<Rightarrow> Inr (role d)))"

section \<open>Queries (the server's resolvers, second generation)\<close>

definition getUser_try :: "platform \<Rightarrow> collection \<Rightarrow> string \<Rightarrow> request_context option \<Rightarrow> js_error + envelope" where
  "getUser_try P db ID ctx =
     (case role_of ctx of
        Inl e \<Rightarrow> Inl e
      | Inr r \<Rightarrow>
          if r \<noteq> ''Admin'' then Inr forbidden
          else (case findById P db ID of
                  Inl e \<Rightarrow> Inl e
                | Inr None \<Rightarrow> Inl (Error ''User not found'')
                | Inr (Some singleUser) \<Rightarrow> Inr ((reply 200 True)\<lparr>user := Some singleUser\<rparr>)))"

definition getUser :: "platform \<Rightarrow> collection \<Rightarrow> string \<Rightarrow> request_context option \<Rightarrow> js_error + envelope" where
  "getUser P db ID ctx =
     (case getUser_try P db ID ctx of
        Inr r \<Rightarrow> Inr r
      | Inl e \<Rightarrow>
          Inr ((reply 500 False)\<lparr>message := Some ''Server Error'',
                                  error := Some (err_message e)\<rparr>))"

text \<open>JavaScript truthiness of an optional number and of an optional string.\<close>

definition truthy_num :: "int option \<Rightarrow> bool" where
  "truthy_num v = (case v of None \<Rightarrow> False | Some n \<Rightarrow> n \<noteq> 0)"

definition truthy_str :: "string option \<Rightarrow> bool" where
  "truthy_str v = (case v of None \<Rightarrow> False | Some s \<Rightarrow> s \<noteq> [])"

text \<open>\<^verbatim>\<open>v || d\<close> on an optional number.\<close>

definition or_num :: "int option \<Rightarrow> int \<Rightarrow> int" where
  "or_num v d = (case v of None \<Rightarrow> d | Some n \<Rightarrow> if n \<noteq> 0 then n else d)"

text \<open>
  A mongoose query under construction, and its execution by the store: order, then
  skip, then limit, whatever the order of the builder calls. The store refuses a negative
  skip; the driver turns a negative limit into its absolute value.
\<close>

record query =
  q_sort :: "string option"
  q_limit :: "int option"
  q_skip :: "int option"

definition User_find :: query where
  "User_find = \<lparr>q_sort = None, q_limit = None, q_skip = None\<rparr>"

definition ordered_by :: "platform \<Rightarrow> string option \<Rightarrow> collection \<Rightarrow> user_doc list" where
  "ordered_by P key db = (case key of None \<Rightarrow> db | Some k \<Rightarrow> sort_docs P k db)"

definition exec :: "platform \<Rightarrow> collection \<Rightarrow> query \<Rightarrow> js_error + user_doc list" where
  "exec P db q =
     (let ordered = ordered_by P (q_sort q) db;
          bounded = (\<lambda>ds. case q_limit q of None \<Rightarrow> ds | Some l \<Rightarrow> take (nat (abs l)) ds)
      in case q_skip q of
           None \<Rightarrow> Inr (bounded ordered)
         | Some k \<Rightarrow>
             if k < 0 then Inl (MongoServerError 51024 ''skip value must be non-negative'')
             else Inr (bounded (drop (nat k) ordered)))"

text \<open>The query that \<^verbatim>\<open>getUsers\<close> builds, lines 367 to 378.\<close>

definition usersQuery :: "string option \<Rightarrow> int option \<Rightarrow> int option \<Rightarrow> query" where
  "usersQuery sortBy' limit' page' =
     (let q0 = User_find;
          q1 = (if truthy_str sortBy' then q0\<lparr>q_sort := sortBy'\<rparr> else q0);
          q2 = (if truthy_num limit' then q1\<lparr>q_limit := limit'\<rparr> else q1);
          q3 = (case page' of
                  None \<Rightarrow> q2
                | Some p \<Rightarrow>
                    if p \<noteq> 0 then q2\<lparr>q_skip := Some ((p - 1) * or_num limit' 0)\<rparr> else q2)
      in q3)"

text \<open>
  \<^verbatim>\<open>Math.ceil(totalUsers / (limit || 10))\<close>. The division is the exact quotient; the
  source divides in double precision, which agrees on every count a collection
  can reach.
\<close>

definition totalPages_of :: "nat \<Rightarrow> int option \<Rightarrow> int" where
  "totalPages_of n limit' = \<lceil>real n / real_of_int (or_num limit' 10)\<rceil>"

definition getUsers_try ::
  "platform \<Rightarrow> collection \<Rightarrow> PaginationInput option \<Rightarrow> SortInput option \<Rightarrow> request_context option
     \<Rightarrow> js_error + envelope" where
  "getUsers_try P db pagination sort' ctx =
     (let limit' = (case pagination of None \<Rightarrow> None | Some pg \<Rightarrow> limit pg);
          page' = (case pagination of None \<Rightarrow> None | Some pg \<Rightarrow> page pg);
          sortBy' = (case sort' of None \<Rightarrow> None | Some s \<Rightarrow> sortBy s)
      in case role_of ctx of
           Inl e \<Rightarrow> Inl e
         | Inr r \<Rightarrow>
             if r \<noteq> ''Admin'' then Inr forbidden
             else (case exec P db (usersQuery sortBy' limit' page') of
                     Inl e \<Rightarrow> Inl e
                   | Inr users \<Rightarrow>
                       (let totalUsers' = length db;
                            totalPages' = totalPages_of totalUsers' limit'
                        in Inr ((reply 200 True)
                                 \<lparr>data := Some (ManyUsers users),
                                  pageInfo := Some \<lparr>totalUsers = int totalUsers',
                                                    totalPages = totalPages',
                                                    currentPage = page'\<rparr>,
                                  message := None\<rparr>))))"

definition getUsers ::
  "platform \<Rightarrow> collection \<Rightarrow> PaginationInput option \<Rightarrow> SortInput option \<Rightarrow> request_context option
     \<Rightarrow> js_error + envelope" where
  "getUsers P db pagination sort' ctx =
     (case getUsers_try P db pagination sort' ctx of
        Inr r \<Rightarrow> Inr r
      | Inl e \<Rightarrow>
          Inr ((reply 500 False)\<lparr>message := Some ''Server Error'',
                                  error := Some (err_message e)\<rparr>))"

section \<open>Mutations (the server's resolvers, second generation)\<close>

text \<open>
  \<^verbatim>\<open>new User({ username, email, password, address })\<close>: a fresh \<^verbatim>\<open>_id\<close>, the schema's
  default role, and every path of the object literal marked modified, also one whose
  value is \<^verbatim>\<open>undefined\<close>.
\<close>

definition new_User ::
  "user_schema \<Rightarrow> draws \<Rightarrow> string option \<Rightarrow> string option \<Rightarrow> string option \<Rightarrow> string option
     \<Rightarrow> document" where
  "new_User S R username' email' password' address' =
     \<lparr>contents =
        \<lparr>doc_id = new_ObjectId R, username = username', email = email',
         password = password', address = address',
         role = (case default_value (role_path S) of None \<Rightarrow> [] | Some r \<Rightarrow> r)\<rparr>,
      isNew = True,
      modifiedPaths = [''username'', ''email'', ''password'', ''address'']\<rparr>"

definition createUser_try ::
  "platform \<Rightarrow> draws \<Rightarrow> collection \<Rightarrow> UserInput option \<Rightarrow> request_context option
     \<Rightarrow> js_error + (envelope \<times> collection)" where
  "createUser_try P R db userInput ctx =
     (case role_of ctx of
        Inl e \<Rightarrow> Inl e
      | Inr r \<Rightarrow>
          if r \<noteq> ''Admin'' then Inr (forbidden, db)
          else (case userInput of
                  None \<Rightarrow> Inl (TypeError ''Cannot destructure property 'username' of 'userInput' as it is undefined.'')
                | Some inp \<Rightarrow>
                    (let createdUser = new_User userSchema R (username_in inp) (email_in inp)
                                         (password_in inp) (address_in inp)
                     in case save P userSchema R db createdUser of
                          Inl e \<Rightarrow> Inl e
                        | Inr (saved, db') \<Rightarrow>
                            Inr ((reply 201 True)
                                   \<lparr>message := Some ''User created successfully'',
                                    data := map_option OneUser (user_of ctx)\<rparr>, db'))))"

definition createUser ::
  "platform \<Rightarrow> draws \<Rightarrow> collection \<Rightarrow> UserInput option \<Rightarrow> request_context option
     \<Rightarrow> (js_error + envelope) \<times> collection" where
  "createUser P R db userInput ctx =
     (case createUser_try P R db userInput ctx of
        Inr (r, db') \<Rightarrow> (Inr r, db')
      | Inl e \<Rightarrow>
          if err_name e = ''MongoServerError'' \<and> err_code e = Some 11000
          then (Inr ((reply 400 False)\<lparr>message := Some ''Email already exists'',
                                        error := Some (err_message e)\<rparr>), db)
          else (Inr ((reply 500 False)\<lparr>message := Some ''Internal Server Error'',
                                        error := Some (err_message e)\<rparr>), db))"

text \<open>The methods of models/user.ts, lines 32 to 46.\<close>

definition comparePassword :: "platform \<Rightarrow> user_doc \<Rightarrow> string \<Rightarrow> js_error + bool" where
  "comparePassword P d candidatePassword =
     (case password d of
        None \<Rightarrow> Inl (Error ''Illegal arguments: string, undefined'')
      | Some h \<Rightarrow> Inr (bcrypt_compare P candidatePassword h))"

definition claim :: "string \<Rightarrow> string option \<Rightarrow> (string \<times> string) list" where
  "claim k v = (case v of None \<Rightarrow> [] | Some s \<Rightarrow> [(k, s)])"

definition generateAuthToken :: "platform \<Rightarrow> user_doc \<Rightarrow> js_error + string" where
  "generateAuthToken P d =
     (let payload = [(''userId'', doc_id d)] @ claim ''username'' (username d)
                    @ claim ''email'' (email d) @ [(''role'', role d)]
      in jwt_sign P payload (JWT_SECRET P))"

definition loginUser_try :: "platform \<Rightarrow> collection \<Rightarrow> string \<Rightarrow> string \<Rightarrow> js_error + envelope" where
  "loginUser_try P db email' password' =
     (case findOne_email db email' of
        None \<Rightarrow> Inl (Error ''User not found'')
      | Some u \<Rightarrow>
          (case comparePassword P u password' of
             Inl e \<Rightarrow> Inl e
           | Inr isPasswordValid \<Rightarrow>
               if \<not> isPasswordValid then Inl (Error ''Invalid password'')
               else (case generateAuthToken P u of
                       Inl e \<Rightarrow> Inl e
                     | Inr t \<Rightarrow>
                         Inr ((reply 200 True)
                                \<lparr>user := Some u, token := Some t, userData := Some u,
                                 message := Some ''Login successfully''\<rparr>))))"

text \<open>\<^verbatim>\<open>loginUser\<close> takes no third parameter: it never reads the context.\<close>

definition loginUser :: "platform \<Rightarrow> collection \<Rightarrow> string \<Rightarrow> string \<Rightarrow> js_error + envelope" where
  "loginUser P db email' password' =
     (case loginUser_try P db email' password' of
        Inr r \<Rightarrow> Inr r
      | Inl e \<Rightarrow> Inr ((reply 500 False)\<lparr>message := Some (err_message e)\<rparr>))"

text \<open>
  Assigning a path of a loaded document: the value is stored, and the path is marked
  modified when the value differs from the one it had.
\<close>

definition set_username :: "string option \<Rightarrow> document \<Rightarrow> document" where
  "set_username v d =
     d\<lparr>contents := (contents d)\<lparr>username := v\<rparr>,
       modifiedPaths := (if username (contents d) = v then modifiedPaths d
                         else ''username'' # modifiedPaths d)\<rparr>"

definition set_email :: "string option \<Rightarrow> document \<Rightarrow> document" where
  "set_email v d =
     d\<lparr>contents := (contents d)\<lparr>email := v\<rparr>,
       modifiedPaths := (if email (contents d) = v then modifiedPaths d
                         else ''email'' # modifiedPaths d)\<rparr>"

definition set_address :: "string option \<Rightarrow> document \<Rightarrow> document" where
  "set_address v d =
     d\<lparr>contents := (contents d)\<lparr>address := v\<rparr>,
       modifiedPaths := (if address (contents d) = v then modifiedPaths d
                         else ''address'' # modifiedPaths d)\<rparr>"

definition updateUser_try ::
  "platform \<Rightarrow> draws \<Rightarrow> collection \<Rightarrow> string \<Rightarrow> UpdateUserInput option \<Rightarrow> request_context option
     \<Rightarrow> js_error + (envelope \<times> collection)" where
  "updateUser_try P R db ID userInput ctx =
     (case role_of ctx of
        Inl e \<Rightarrow> Inl e
      | Inr r \<Rightarrow>
          if r \<noteq> ''Admin'' then Inr (forbidden, db)
          else (case findById P db ID of
                  Inl e \<Rightarrow> Inl e
                | Inr None \<Rightarrow> Inl (Error ''User not found'')
                | Inr (Some found) \<Rightarrow>
                    (case userInput of
                       None \<Rightarrow>
                         Inl (TypeError ''Cannot destructure property 'username' of 'userInput' as it is undefined.'')
                     | Some inp \<Rightarrow>
                         (let singleUser =
                                set_address (address_up inp)
                                  (set_email (email_up inp)
                                    (set_username (username_up inp) (hydrate found)))
                          in case save P userSchema R db singleUser of
                               Inl e \<Rightarrow> Inl e
                             | Inr (saved, db') \<Rightarrow>
                                 Inr ((reply 200 True)
                                        \<lparr>message := Some ''User updated successfully'',
                                         user := Some (contents saved)\<rparr>, db')))))"

definition updateUser ::
  "platform \<Rightarrow> draws \<Rightarrow> collection \<Rightarrow> string \<Rightarrow> UpdateUserInput option \<Rightarrow> request_context option
     \<Rightarrow> (js_error + envelope) \<times> collection" where
  "updateUser P R db ID userInput ctx =
     (case updateUser_try P R db ID userInput ctx of
        Inr (r, db') \<Rightarrow> (Inr r, db')
      | Inl e \<Rightarrow> (Inr ((reply 500 False)\<lparr>message := Some (err_message e)\<rparr>), db))"

definition deleteUser_try ::
  "platform \<Rightarrow> collection \<Rightarrow> string \<Rightarrow> request_context option \<Rightarrow> js_error + (envelope \<times> collection)" where
  "deleteUser_try P db ID ctx =
     (case role_of ctx of
        Inl e \<Rightarrow> Inl e
      | Inr r \<Rightarrow>
          if r \<noteq> ''Admin'' then Inr (forbidden, db)
          else (case findByIdAndDelete P db ID of
                  Inl e \<Rightarrow> Inl e
                | Inr (None, db') \<Rightarrow> Inl (Error ''User not found'')
                | Inr (Some deletedUser, db') \<Rightarrow>
                    Inr ((reply 200 True)
                           \<lparr>message := Some ''User deleted successfully'',
                            user := Some deletedUser\<rparr>, db')))"

definition deleteUser ::
  "platform \<Rightarrow> collection \<Rightarrow> string \<Rightarrow> request_context option
     \<Rightarrow> (js_error + envelope) \<times> collection" where
  "deleteUser P db ID ctx =
     (case deleteUser_try P db ID ctx of
        Inr (r, db') \<Rightarrow> (Inr r, db')
      | Inl e \<Rightarrow> (Inr ((reply 500 False)\<lparr>message := Some (err_message e)\<rparr>), db))"

section \<open>One request through the server\<close>

datatype operation =
    GetUser string
  | GetUsers "PaginationInput option" "SortInput option"
  | CreateUser "UserInput option"
  | LoginUser string string
  | UpdateUser string "UpdateUserInput option"
  | DeleteUser string

text \<open>
  What became of a request: \<open>Rejected\<close> when the server answered with an error
  before calling a resolver; \<open>Resolved\<close> with what the resolver returned (\<open>Inr\<close>)
  or threw (\<open>Inl\<close>). The resolvers of this server do all their work inside
  \<^verbatim>\<open>try\<close>, so none of them throws.
\<close>

datatype outcome = Rejected js_error | Resolved "js_error + envelope"

definition resolve ::
  "platform \<Rightarrow> draws \<Rightarrow> collection \<Rightarrow> operation \<Rightarrow> request_context option
     \<Rightarrow> (js_error + envelope) \<times> collection" where
  "resolve P R db op ctx =
     (case op of
        GetUser ID \<Rightarrow> (getUser P db ID ctx, db)
      | GetUsers pagination sort' \<Rightarrow> (getUsers P db pagination sort' ctx, db)
      | CreateUser userInput \<Rightarrow> createUser P R db userInput ctx
      | LoginUser email' password' \<Rightarrow> (loginUser P db email' password', db)
      | UpdateUser ID userInput \<Rightarrow> updateUser P R db ID userInput ctx
      | DeleteUser ID \<Rightarrow> deleteUser P db ID ctx)"

text \<open>
  The schema types \<^verbatim>\<open>limit\<close> and \<^verbatim>\<open>page\<close> as \<^verbatim>\<open>Int\<close>: the server refuses a
  number outside 32 signed bits before any resolver.
\<close>

definition is_Int :: "int option \<Rightarrow> bool" where
  "is_Int v = (case v of None \<Rightarrow> True | Some n \<Rightarrow> - 2147483648 \<le> n \<and> n \<le> 2147483647)"

definition well_typed :: "operation \<Rightarrow> bool" where
  "well_typed op =
     (case op of
        GetUsers (Some pg) sort' \<Rightarrow> is_Int (limit pg) \<and> is_Int (page pg)
      | _ \<Rightarrow> True)"

definition not_an_Int :: js_error where
  "not_an_Int =
     GraphQLError ''Int cannot represent non 32-bit signed integer value''
       ''GRAPHQL_VALIDATION_FAILED'' 400"

text \<open>
  The standalone server: the context function runs first; when it throws, the request
  is answered with its error and no resolver runs. When it returns \<^verbatim>\<open>undefined\<close>,
  the resolver is handed the empty object. The arguments are checked against the
  schema before the resolver is called.
\<close>

definition serve ::
  "platform \<Rightarrow> draws \<Rightarrow> collection \<Rightarrow> string option \<Rightarrow> operation \<Rightarrow> outcome \<times> collection" where
  "serve P R db authorization op =
     (case context_fn P db authorization of
        Inl e \<Rightarrow> (Rejected e, db)
      | Inr ctx \<Rightarrow>
          if \<not> well_typed op then (Rejected not_an_Int, db)
          else (case resolve P R db op ctx of (r, db') \<Rightarrow> (Resolved r, db')))"

section \<open>A concrete platform and collection\<close>

text \<open>
  The theorems below hold for every platform. To run requests on concrete inputs, the
  parameters are instantiated here with a stand-in: it accepts two tokens under the
  secret \<open>s3cret\<close> (one naming the stored administrator, one naming an id that no
  document has) and throws on every other token; a string of 24 hexadecimal digits
  casts to an identifier, its letters in lower case; hashing prepends the salt.
\<close>

definition hex_digit :: "char \<Rightarrow> char option" where
  "hex_digit c = map_of (zip ''0123456789abcdefABCDEF'' ''0123456789abcdefabcdef'') c"

definition demo_cast :: "string \<Rightarrow> string option" where
  "demo_cast s = (if length s = 24 then those (map hex_digit s) else None)"

definition demo_admin :: user_doc where
  "demo_admin =
     \<lparr>doc_id = ''6500000000000000000000a1'', username = Some ''root'',
      email = Some ''root@example.com'', password = Some ''salt0:rootpw'',
      address = Some ''1 Main Street'', role = ''Admin''\<rparr>"

definition demo_alice :: user_doc where
  "demo_alice =
     \<lparr>doc_id = ''6500000000000000000000a2'', username = Some ''alice'',
      email = Some ''alice@example.com'', password = Some ''salt1:alicepw'',
      address = Some ''2 Side Street'', role = ''User''\<rparr>"

definition demo_db :: collection where
  "demo_db = [demo_admin, demo_alice]"

definition demo_verify :: "string \<Rightarrow> string option \<Rightarrow> js_error + jwt_decoded" where
  "demo_verify tok secret =
     (if secret \<noteq> Some ''s3cret'' then Inl (JsonWebTokenError ''invalid signature'')
      else if tok = ''admin.jwt''
        then Inr (DecodedObject [(''userId'', ''6500000000000000000000a1''), (''role'', ''Admin'')])
      else if tok = ''ghost.jwt''
        then Inr (DecodedObject [(''userId'', ''6500000000000000000000ff''), (''role'', ''Admin'')])
      else Inl (JsonWebTokenError ''jwt malformed''))"

definition demo_sign :: "(string \<times> string) list \<Rightarrow> string option \<Rightarrow> js_error + string" where
  "demo_sign payload secret =
     (case secret of
        None \<Rightarrow> Inl (Error ''secretOrPrivateKey must have a value'')
      | Some k \<Rightarrow> Inr ''signed.jwt'')"

definition demo_platform :: platform where
  "demo_platform =
     \<lparr>JWT_SECRET = Some ''s3cret'',
      jwt_verify = demo_verify,
      jwt_sign = demo_sign,
      bcrypt_hash = (\<lambda>plaintext salt. salt @ '':'' @ plaintext),
      bcrypt_compare = (\<lambda>candidate h. drop (length h - length candidate) h = candidate),
      castObjectId = demo_cast,
      sort_docs = (\<lambda>key ds. ds)\<rparr>"

definition demo_draws :: draws where
  "demo_draws = \<lparr>new_ObjectId = ''6500000000000000000000b7'', genSalt = ''salt7''\<rparr>"

definition admin_ctx :: request_context where
  "admin_ctx = \<lparr>ctx_token = ''admin.jwt'', ctx_user = Some demo_admin\<rparr>"

text \<open>Five stored accounts, for paging.\<close>

definition demo_user :: "string \<Rightarrow> string \<Rightarrow> user_doc" where
  "demo_user i n =
     \<lparr>doc_id = i, username = Some n, email = Some (n @ ''@example.com''),
      password = Some (''salt2:'' @ n), address = Some ''4 High Street'', role = ''User''\<rparr>"

definition demo_five :: collection where
  "demo_five =
     [demo_admin, demo_alice, demo_user ''6500000000000000000000a3'' ''carol'',
      demo_user ''6500000000000000000000a4'' ''dave'',
      demo_user ''6500000000000000000000a5'' ''erin'']"

lemmas demo_defs = demo_platform_def demo_verify_def demo_sign_def demo_db_def demo_admin_def
  demo_alice_def demo_draws_def admin_ctx_def demo_user_def demo_five_def

text \<open>The casts of the identifiers used below.\<close>

lemma demo_cast_ids:
  "demo_cast ''6500000000000000000000a1'' = Some ''6500000000000000000000a1''"
  "demo_cast ''6500000000000000000000a2'' = Some ''6500000000000000000000a2''"
  "demo_cast ''6500000000000000000000A2'' = Some ''6500000000000000000000a2''"
  "demo_cast ''6500000000000000000000a9'' = Some ''6500000000000000000000a9''"
  "demo_cast ''6500000000000000000000ff'' = Some ''6500000000000000000000ff''"
  by (simp_all add: demo_cast_def hex_digit_def)

section \<open>Facts about the store\<close>

lemma find_absent: "i \<notin> set (map doc_id db) \<Longrightarrow> find (\<lambda>d. doc_id d = i) db = None"
  by (induction db) auto

lemma index_of_find:
  "index_of i db = Some k \<Longrightarrow> k < length db \<and> find (\<lambda>d. doc_id d = i) db = Some (db ! k)"
  by (induction db arbitrary: k) (auto split: if_splits)

lemma index_of_none:
  "index_of i db = None \<Longrightarrow> find (\<lambda>d. doc_id d = i) db = None"
  by (induction db) (auto split: if_splits)

lemma find_update_first:
  "index_of i db = Some k \<Longrightarrow> doc_id x = i
     \<Longrightarrow> find (\<lambda>d. doc_id d = i) (db[k := x]) = Some x"
  by (induction db arbitrary: k) (auto split: if_splits)

lemma filter_update_same_id:
  "k < length db \<Longrightarrow> doc_id (db ! k) = i \<Longrightarrow> doc_id d = i \<Longrightarrow>
     filter (\<lambda>x. doc_id x \<noteq> i) (db[k := d]) = filter (\<lambda>x. doc_id x \<noteq> i) db"
  by (induction db arbitrary: k) (auto split: nat.splits simp: nth_Cons')

lemma map_update_same:
  "k < length xs \<Longrightarrow> f d = f (xs ! k) \<Longrightarrow> map f (xs[k := d]) = map f xs"
  by (induction xs arbitrary: k) (auto split: nat.splits)

text \<open>
  Saving a loaded document whose password path is unmodified leaves the document as
  assigned and writes it over the first stored document with its id.
\<close>

lemma save_loaded:
  assumes "save P S R db d = Inr (d', db')" "\<not> isNew d" "\<not> isModified d ''password''"
  shows "contents d' = contents d \<and>
         db' = (case index_of (doc_id (contents d)) db of
                  None \<Rightarrow> db | Some k \<Rightarrow> db[k := contents d])"
  using assms
  by (auto simp: save_def pre_save_def updateOne_def split: sum.splits if_splits option.splits)

lemma save_missing_required:
  "username (contents d) = None \<or> email (contents d) = None \<or> address (contents d) = None
     \<Longrightarrow> save P userSchema R db d
         = Inl (ValidationError (validation_message (required_failures userSchema (contents d))))"
  by (auto simp: save_def validate_def required_failures_def checkRequired_def userSchema_def
      plain_path_def)

lemma save_ok_required:
  "save P userSchema R db d = Inr r
     \<Longrightarrow> username (contents d) \<noteq> None \<and> email (contents d) \<noteq> None
         \<and> address (contents d) \<noteq> None"
  using save_missing_required [of d P R db] by force

text \<open>The document \<^verbatim>\<open>updateUser\<close> saves: the loaded one after its three assignments.\<close>

lemma assigned_contents:
  "contents (set_address (address_up inp) (set_email (email_up inp)
       (set_username (username_up inp) (hydrate found))))
   = found\<lparr>username := username_up inp, email := email_up inp, address := address_up inp\<rparr>"
  by (simp add: set_address_def set_email_def set_username_def hydrate_def)

lemma assigned_flags:
  "\<not> isNew (set_address a (set_email b (set_username c (hydrate found))))"
  "\<not> isModified (set_address a (set_email b (set_username c (hydrate found)))) ''password''"
  by (auto simp: set_address_def set_email_def set_username_def hydrate_def isModified_def)

text \<open>
  What \<^verbatim>\<open>updateUser\<close> can do to the collection: nothing, or replace the document at
  the given id by one with the same id, password and role.
\<close>

lemma updateUser_store:
  "snd (updateUser P R db ID inp ctx) = db
   \<or> (\<exists>k d oid. castObjectId P ID = Some oid \<and> k < length db \<and> doc_id (db ! k) = oid
          \<and> doc_id d = oid \<and> password d = password (db ! k) \<and> role d = role (db ! k)
          \<and> snd (updateUser P R db ID inp ctx) = db[k := d])"
proof (cases "\<exists>env db'. updateUser_try P R db ID inp ctx = Inr (env, db') \<and> db' \<noteq> db")
  case False
  then show ?thesis
    by (auto simp: updateUser_def split: sum.splits)
next
  case True
  then obtain env db' where t: "updateUser_try P R db ID inp ctx = Inr (env, db')"
      and ne: "db' \<noteq> db"
    by blast
  from t ne have "\<exists>found (i::UpdateUserInput) saved. findById P db ID = Inr (Some found) \<and>
      save P userSchema R db
             (set_address (address_up i) (set_email (email_up i)
                (set_username (username_up i) (hydrate found)))) = Inr (saved, db')"
    by (auto simp: updateUser_try_def split: sum.splits if_splits option.splits)
  then obtain found and i :: UpdateUserInput and saved where
      fnd: "findById P db ID = Inr (Some found)" and
      sv: "save P userSchema R db
             (set_address (address_up i) (set_email (email_up i)
                (set_username (username_up i) (hydrate found)))) = Inr (saved, db')"
    by blast
  let ?d = "set_address (address_up i) (set_email (email_up i)
                (set_username (username_up i) (hydrate found)))"
  from fnd obtain oid where cast: "castObjectId P ID = Some oid"
      and ff: "find (\<lambda>d. doc_id d = oid) db = Some found"
    by (auto simp: findById_def split: option.splits)
  then have idf: "doc_id found = oid"
    by (auto simp: find_Some_iff)
  from ff obtain k where k: "index_of oid db = Some k"
    using index_of_none [of oid db] by (cases "index_of oid db") auto
  from save_loaded [OF sv assigned_flags] k idf
  have db': "db' = db[k := contents ?d]"
    by (auto simp: assigned_contents)
  from index_of_find [OF k] ff have kl: "k < length db" and dk: "db ! k = found" by auto
  have cd: "doc_id (contents ?d) = oid" "password (contents ?d) = password (db ! k)"
      "role (contents ?d) = role (db ! k)"
    using dk idf by (simp_all add: assigned_contents)
  have "snd (updateUser P R db ID inp ctx) = db'"
    using t by (simp add: updateUser_def)
  then have "snd (updateUser P R db ID inp ctx) = db[k := contents ?d]"
    using db' by simp
  moreover have "doc_id (db ! k) = oid" using dk idf by simp
  ultimately show ?thesis using kl cd cast by blast
qed

section \<open>Token verification at the boundary\<close>

text \<open>
  Claim C1. Whenever the authorization header carries a token (a non-empty second
  piece after splitting at the blanks) that \<^verbatim>\<open>jwt.verify\<close> refuses under the
  process-wide secret (malformed, signed with another key, expired), or that decodes to
  a bare string, or whose decoded payload has no \<^verbatim>\<open>userId\<close>, the context function
  throws the GraphQL error \<^verbatim>\<open>Invalid token\<close> with code \<^verbatim>\<open>INVALID_TOKEN\<close> and status
  401; the server then rejects the request, whatever the operation, without calling a
  resolver and without touching the collection.
\<close>

theorem context_rejects_invalid_token:
  assumes tok: "nth_opt (split (CHR '' '') h) 1 = Some tok" and ne: "tok \<noteq> []"
    and bad: "(\<exists>e. jwt_verify P tok (JWT_SECRET P) = Inl e)
            \<or> (\<exists>s. jwt_verify P tok (JWT_SECRET P) = Inr (DecodedString s))
            \<or> (\<exists>obj. jwt_verify P tok (JWT_SECRET P) = Inr (DecodedObject obj)
                    \<and> map_of obj ''userId'' = None)"
  shows "context_fn P db (Some h) = Inl (GraphQLError ''Invalid token'' ''INVALID_TOKEN'' 401)
       \<and> serve P R db (Some h) op
           = (Rejected (GraphQLError ''Invalid token'' ''INVALID_TOKEN'' 401), db)"
proof -
  from bad have "\<exists>e. context_try P db tok = Inl e"
    by (auto simp: context_try_def)
  then have c: "context_fn P db (Some h) = Inl invalid_token"
    using tok ne by (auto simp: context_fn_def)
  then show ?thesis by (simp add: serve_def invalid_token_def)
qed

text \<open>The theorem at a forged token, on a request to delete an account.\<close>

theorem context_rejects_invalid_token_witness:
  "context_fn demo_platform demo_db (Some ''Bearer forged.jwt'')
     = Inl (GraphQLError ''Invalid token'' ''INVALID_TOKEN'' 401)
   \<and> serve demo_platform demo_draws demo_db (Some ''Bearer forged.jwt'')
        (DeleteUser ''6500000000000000000000a2'')
     = (Rejected (GraphQLError ''Invalid token'' ''INVALID_TOKEN'' 401), demo_db)"
proof -
  have t: "nth_opt (split (CHR '' '') ''Bearer forged.jwt'') 1 = Some ''forged.jwt''"
    by (simp add: nth_opt_def)
  have n: "''forged.jwt'' \<noteq> []" by simp
  have b: "(\<exists>e. jwt_verify demo_platform ''forged.jwt'' (JWT_SECRET demo_platform) = Inl e)
         \<or> (\<exists>s. jwt_verify demo_platform ''forged.jwt'' (JWT_SECRET demo_platform)
                  = Inr (DecodedString s))
         \<or> (\<exists>obj. jwt_verify demo_platform ''forged.jwt'' (JWT_SECRET demo_platform)
                    = Inr (DecodedObject obj) \<and> map_of obj ''userId'' = None)"
    by (simp add: demo_platform_def demo_verify_def)
  show ?thesis
    by (rule context_rejects_invalid_token [OF t n b])
qed

section \<open>Hashing on save and verifying\<close>



section \<open>The payload of a successful \<^verbatim>\<open>createUser\<close>\<close>

text \<open>
  Claim C3. The claim wants the success envelope of \<^verbatim>\<open>createUser\<close> to carry the newly
  created account. The source returns \<^verbatim>\<open>data: user\<close>, and \<^verbatim>\<open>user\<close> is the caller taken
  from the context, not \<^verbatim>\<open>createdUser\<close>. Here the stored administrator creates the
  account \<open>bob\<close>: the collection gains \<open>bob\<close>, with the hashed password and the
  default role, and the envelope carries the administrator's own document.
\<close>

theorem createUser_returns_caller:
  "serve demo_platform demo_draws demo_db (Some ''Bearer admin.jwt'')
     (CreateUser (Some \<lparr>username_in = Some ''bob'', email_in = Some ''bob@example.com'',
                        password_in = Some ''pw'', address_in = Some ''3 Low Street''\<rparr>))
   = (Resolved (Inr ((reply 201 True)\<lparr>message := Some ''User created successfully'',
                                       data := Some (OneUser demo_admin)\<rparr>)),
      demo_db @ [\<lparr>doc_id = ''6500000000000000000000b7'', username = Some ''bob'',
                  email = Some ''bob@example.com'', password = Some ''salt7:pw'',
                  address = Some ''3 Low Street'', role = ''User''\<rparr>])"
  by (simp add: serve_def context_fn_def nth_opt_def context_try_def findById_def resolve_def
      well_typed_def user_of_def demo_cast_ids
      createUser_def createUser_try_def role_of_def new_User_def save_def validate_def required_failures_def validation_message_def checkRequired_def userSchema_def plain_path_def pre_save_def
      isModified_def insertOne_def reply_def demo_defs)

section \<open>A valid token naming no stored account\<close>

text \<open>
  Claim C4. The claim wants every gated operation to answer a correctly signed,
  unexpired token whose \<^verbatim>\<open>userId\<close> matches no account with an authorization failure,
  not with a 500. The context function puts \<^verbatim>\<open>user: null\<close> into the context; each
  resolver then reads \<^verbatim>\<open>user.role\<close>, the TypeError lands in the resolver's generic
  \<^verbatim>\<open>catch\<close>, and the envelope has status 500. The five gated operations on such a
  token:
\<close>

theorem missing_caller_gives_500:
  "serve demo_platform demo_draws demo_db (Some ''Bearer ghost.jwt'')
      (GetUser ''6500000000000000000000a2'')
     = (Resolved (Inr ((reply 500 False)
          \<lparr>message := Some ''Server Error'',
           error := Some ''Cannot read properties of null (reading 'role')''\<rparr>)), demo_db)
   \<and> serve demo_platform demo_draws demo_db (Some ''Bearer ghost.jwt'')
      (GetUsers None None)
     = (Resolved (Inr ((reply 500 False)
          \<lparr>message := Some ''Server Error'',
           error := Some ''Cannot read properties of null (reading 'role')''\<rparr>)), demo_db)
   \<and> serve demo_platform demo_draws demo_db (Some ''Bearer ghost.jwt'')
      (CreateUser (Some \<lparr>username_in = Some ''bob'', email_in = Some ''bob@example.com'',
                         password_in = Some ''pw'', address_in = Some ''3 Low Street''\<rparr>))
     = (Resolved (Inr ((reply 500 False)
          \<lparr>message := Some ''Internal Server Error'',
           error := Some ''Cannot read properties of null (reading 'role')''\<rparr>)), demo_db)
   \<and> serve demo_platform demo_draws demo_db (Some ''Bearer ghost.jwt'')
      (UpdateUser ''6500000000000000000000a2''
         (Some \<lparr>username_up = Some ''al'', email_up = Some ''al@example.com'',
                address_up = Some ''9 New Road''\<rparr>))
     = (Resolved (Inr ((reply 500 False)
          \<lparr>message := Some ''Cannot read properties of null (reading 'role')''\<rparr>)), demo_db)
   \<and> serve demo_platform demo_draws demo_db (Some ''Bearer ghost.jwt'')
      (DeleteUser ''6500000000000000000000a2'')
     = (Resolved (Inr ((reply 500 False)
          \<lparr>message := Some ''Cannot read properties of null (reading 'role')''\<rparr>)), demo_db)"
  by (simp add: serve_def context_fn_def nth_opt_def context_try_def findById_def resolve_def
      well_typed_def user_of_def demo_cast_ids
      getUser_def getUser_try_def getUsers_def getUsers_try_def createUser_def createUser_try_def
      updateUser_def updateUser_try_def deleteUser_def deleteUser_try_def
      role_of_def reply_def demo_defs)

section \<open>\<^verbatim>\<open>loginUser\<close> on a request without a token\<close>

text \<open>
  Claim C5. The claim wants \<^verbatim>\<open>loginUser\<close> to run on a request that has no authorization
  header. The context function calls \<^verbatim>\<open>split\<close> on the missing header before its
  \<^verbatim>\<open>try\<close> block and before the test \<^verbatim>\<open>if (token)\<close>, so it throws a TypeError: on
  every platform, collection and pair of credentials the request is rejected at the
  boundary and \<^verbatim>\<open>loginUser\<close> is never called.
\<close>

theorem login_without_header_is_rejected:
  "serve P R db None (LoginUser e p)
     = (Rejected (TypeError ''Cannot read properties of undefined (reading 'split')''), db)"
  by (simp add: serve_def context_fn_def)

section \<open>Pagination of \<^verbatim>\<open>getUsers\<close>\<close>

text \<open>
  Claim C6. For an administrator and a page number \<open>p \<ge> 1\<close>, in the default order:
  \<^item> with a limit \<open>l > 0\<close> the query skips \<open>(p - 1) * l\<close> documents, the answer holds
    the next \<open>l\<close> documents at most, and \<open>totalPages\<close> is the ceiling of the count
    divided by \<open>l\<close>;
  \<^item> with no limit the skip is \<open>(p - 1) * 0\<close>, so every document is returned, and
    \<open>totalPages\<close> is the ceiling of the count divided by 10;
  \<^item> against any five accounts, limit 2 and page 2 return the third and the fourth, with
    \<open>totalUsers = 5\<close>, \<open>totalPages = 3\<close> and \<open>currentPage = 2\<close>.
\<close>

theorem getUsers_pagination:
  assumes admin: "ctx_user c = Some u" "role u = ''Admin''"
    and pg: "0 < p"
  shows "(0 < l \<longrightarrow>
            q_skip (usersQuery None (Some l) (Some p)) = Some ((p - 1) * l)
          \<and> getUsers P db (Some \<lparr>limit = Some l, page = Some p\<rparr>) None (Some c)
              = Inr ((reply 200 True)
                  \<lparr>data := Some (ManyUsers (take (nat l) (drop (nat ((p - 1) * l)) db))),
                   pageInfo := Some \<lparr>totalUsers = int (length db),
                                     totalPages = \<lceil>real (length db) / real_of_int l\<rceil>,
                                     currentPage = Some p\<rparr>\<rparr>)
          \<and> length (take (nat l) (drop (nat ((p - 1) * l)) db)) \<le> nat l)
       \<and> q_skip (usersQuery None None (Some p)) = Some ((p - 1) * 0)
       \<and> getUsers P db (Some \<lparr>limit = None, page = Some p\<rparr>) None (Some c)
              = Inr ((reply 200 True)
                  \<lparr>data := Some (ManyUsers db),
                   pageInfo := Some \<lparr>totalUsers = int (length db),
                                     totalPages = \<lceil>real (length db) / 10\<rceil>,
                                     currentPage = Some p\<rparr>\<rparr>)
       \<and> getUsers P [a1, a2, a3, a4, a5] (Some \<lparr>limit = Some 2, page = Some 2\<rparr>) None (Some c)
              = Inr ((reply 200 True)
                  \<lparr>data := Some (ManyUsers [a3, a4]),
                   pageInfo := Some \<lparr>totalUsers = 5, totalPages = 3, currentPage = Some 2\<rparr>\<rparr>)"
proof -
  have A: "0 < l \<Longrightarrow> q_skip (usersQuery None (Some l) (Some p)) = Some ((p - 1) * l)" for l
    using pg by (simp add: usersQuery_def User_find_def truthy_str_def truthy_num_def or_num_def)
  have B: "0 < l \<Longrightarrow> getUsers P db (Some \<lparr>limit = Some l, page = Some p\<rparr>) None (Some c)
              = Inr ((reply 200 True)
                  \<lparr>data := Some (ManyUsers (take (nat l) (drop (nat ((p - 1) * l)) db))),
                   pageInfo := Some \<lparr>totalUsers = int (length db),
                                     totalPages = \<lceil>real (length db) / real_of_int l\<rceil>,
                                     currentPage = Some p\<rparr>\<rparr>)" for l db
  proof -
    assume l: "0 < l"
    with pg have "0 \<le> (p - 1) * l" by simp
    then have nn: "\<not> (p - 1) * l < 0" by simp
    show ?thesis
      using pg admin l nn
      by (simp add: getUsers_def getUsers_try_def role_of_def exec_def
          ordered_by_def usersQuery_def User_find_def truthy_str_def truthy_num_def or_num_def
          totalPages_of_def reply_def Let_def)
  qed
  have C: "q_skip (usersQuery None None (Some p)) = Some ((p - 1) * 0)"
    using pg by (simp add: usersQuery_def User_find_def truthy_str_def truthy_num_def or_num_def)
  have D: "getUsers P db (Some \<lparr>limit = None, page = Some p\<rparr>) None (Some c)
              = Inr ((reply 200 True)
                  \<lparr>data := Some (ManyUsers db),
                   pageInfo := Some \<lparr>totalUsers = int (length db),
                                     totalPages = \<lceil>real (length db) / 10\<rceil>,
                                     currentPage = Some p\<rparr>\<rparr>)"
    using pg admin
    by (simp add: getUsers_def getUsers_try_def role_of_def exec_def
        ordered_by_def usersQuery_def User_find_def truthy_str_def truthy_num_def or_num_def
        totalPages_of_def reply_def Let_def)
  have E: "getUsers P [a1, a2, a3, a4, a5] (Some \<lparr>limit = Some 2, page = Some 2\<rparr>) None (Some c)
              = Inr ((reply 200 True)
                  \<lparr>data := Some (ManyUsers [a3, a4]),
                   pageInfo := Some \<lparr>totalUsers = 5, totalPages = 3, currentPage = Some 2\<rparr>\<rparr>)"
    using admin
    by (simp add: getUsers_def getUsers_try_def role_of_def exec_def
        ordered_by_def usersQuery_def User_find_def truthy_str_def truthy_num_def or_num_def
        totalPages_of_def reply_def Let_def)
  show ?thesis using A B C D E by simp
qed

text \<open>The theorem on the five stored accounts, for the administrator, limit 2, page 2.\<close>

theorem getUsers_pagination_witness:
  "q_skip (usersQuery None (Some 2) (Some 2)) = Some 2
   \<and> getUsers demo_platform demo_five (Some \<lparr>limit = Some 2, page = Some 2\<rparr>) None
        (Some admin_ctx)
      = Inr ((reply 200 True)
          \<lparr>data := Some (ManyUsers [demo_user ''6500000000000000000000a3'' ''carol'',
                                     demo_user ''6500000000000000000000a4'' ''dave'']),
           pageInfo := Some \<lparr>totalUsers = 5, totalPages = 3, currentPage = Some 2\<rparr>\<rparr>)
   \<and> getUsers demo_platform demo_five (Some \<lparr>limit = None, page = Some 2\<rparr>) None
        (Some admin_ctx)
      = Inr ((reply 200 True)
          \<lparr>data := Some (ManyUsers demo_five),
           pageInfo := Some \<lparr>totalUsers = 5, totalPages = 1, currentPage = Some 2\<rparr>\<rparr>)"
proof -
  have a: "ctx_user admin_ctx = Some demo_admin" by (simp add: admin_ctx_def)
  have r: "role demo_admin = ''Admin''" by (simp add: demo_admin_def)
  have p: "(0::int) < 2" by simp
  have h: "\<lceil>(1::real) / 2\<rceil> = 1" by (simp add: ceiling_eq_iff)
  show ?thesis
    using getUsers_pagination [OF a r p, where l = 2 and P = demo_platform and db = demo_five
        and ?a1.0 = demo_admin and ?a2.0 = demo_alice
        and ?a3.0 = "demo_user ''6500000000000000000000a3'' ''carol''"
        and ?a4.0 = "demo_user ''6500000000000000000000a4'' ''dave''"
        and ?a5.0 = "demo_user ''6500000000000000000000a5'' ''erin''"]
    by (simp add: demo_five_def h)
qed

section \<open>A second account with a used email\<close>

text \<open>
  Claim C7. When an administrator creates an account with a username, a password and
  an address and with an email that a stored account already has, \<^verbatim>\<open>createUser\<close>
  returns the envelope with status 400, \<^verbatim>\<open>success: false\<close> and the message
  \<^verbatim>\<open>Email already exists\<close>, and the collection is exactly what it was: nothing was
  inserted and the first account is untouched.
\<close>

theorem createUser_duplicate_email:
  assumes admin: "ctx_user c = Some u" "role u = ''Admin''"
    and dup: "Some e \<in> set (map email db)"
    and ok: "un \<noteq> []" "e \<noteq> []" "ad \<noteq> []"
  shows "\<exists>msg. createUser P R db
             (Some \<lparr>username_in = Some un, email_in = Some e, password_in = Some pw,
                    address_in = Some ad\<rparr>) (Some c)
           = (Inr ((reply 400 False)\<lparr>message := Some ''Email already exists'',
                                      error := Some msg\<rparr>), db)"
  using admin dup ok
  by (simp add: createUser_def createUser_try_def role_of_def new_User_def
      save_def validate_def required_failures_def validation_message_def checkRequired_def userSchema_def plain_path_def
      pre_save_def isModified_def insertOne_def reply_def)

text \<open>The theorem on a second account with the email of \<open>alice\<close>.\<close>

theorem createUser_duplicate_email_witness:
  "\<exists>msg. createUser demo_platform demo_draws demo_db
       (Some \<lparr>username_in = Some ''alice2'', email_in = Some ''alice@example.com'',
              password_in = Some ''pw'', address_in = Some ''5 Back Lane''\<rparr>) (Some admin_ctx)
     = (Inr ((reply 400 False)\<lparr>message := Some ''Email already exists'',
                                error := Some msg\<rparr>), demo_db)"
proof -
  have a: "ctx_user admin_ctx = Some demo_admin" by (simp add: admin_ctx_def)
  have r: "role demo_admin = ''Admin''" by (simp add: demo_admin_def)
  have d: "Some ''alice@example.com'' \<in> set (map email demo_db)"
    by (simp add: demo_db_def demo_admin_def demo_alice_def)
  show ?thesis
    by (rule createUser_duplicate_email [OF a r d]) simp_all
qed

section \<open>No account at the given id\<close>

text \<open>
  Claim C8 as stated fails: the resolvers have no 404. An administrator asking for,
  updating or deleting an id that no stored account has gets status 500 from each of
  the three, since \<^verbatim>\<open>throw new Error("User not found")\<close> lands in the generic
  \<^verbatim>\<open>catch\<close>.
\<close>

theorem not_found_is_500_not_404:
  "getUser demo_platform demo_db ''6500000000000000000000a9'' (Some admin_ctx)
     = Inr ((reply 500 False)\<lparr>message := Some ''Server Error'',
                               error := Some ''User not found''\<rparr>)
   \<and> updateUser demo_platform demo_draws demo_db ''6500000000000000000000a9''
        (Some \<lparr>username_up = Some ''al'', email_up = Some ''al@example.com'',
               address_up = Some ''9 New Road''\<rparr>) (Some admin_ctx)
     = (Inr ((reply 500 False)\<lparr>message := Some ''User not found''\<rparr>), demo_db)
   \<and> deleteUser demo_platform demo_db ''6500000000000000000000a9'' (Some admin_ctx)
     = (Inr ((reply 500 False)\<lparr>message := Some ''User not found''\<rparr>), demo_db)
   \<and> status ((reply 500 False)\<lparr>message := Some ''User not found''\<rparr>) \<noteq> 404
   \<and> status ((reply 500 False)\<lparr>message := Some ''Server Error'',
                                 error := Some ''User not found''\<rparr>) \<noteq> 404"
  by (simp add: getUser_def getUser_try_def updateUser_def updateUser_try_def deleteUser_def
      deleteUser_try_def findByIdAndDelete_def findById_def role_of_def
      reply_def demo_cast_ids demo_defs)

text \<open>
  Claim C8, amended. An id names no account when it cannot be cast to an ObjectId, or
  when no stored account has the identifier it casts to. For such an id \<^verbatim>\<open>getUser\<close>,
  \<^verbatim>\<open>updateUser\<close> and \<^verbatim>\<open>deleteUser\<close>, called by an administrator, each return an
  envelope with status 500 and \<^verbatim>\<open>success: false\<close>, and the two mutations leave the
  collection as it was.
\<close>

theorem missing_account_gives_500:
  assumes admin: "ctx_user c = Some u" "role u = ''Admin''"
    and none: "\<forall>oid. castObjectId P ID = Some oid \<longrightarrow> oid \<notin> set (map doc_id db)"
  shows "(\<exists>env. getUser P db ID (Some c) = Inr env \<and> status env = 500 \<and> success env = False)
       \<and> (\<exists>env. updateUser P R db ID inp (Some c) = (Inr env, db)
                 \<and> status env = 500 \<and> success env = False)
       \<and> (\<exists>env. deleteUser P db ID (Some c) = (Inr env, db)
                 \<and> status env = 500 \<and> success env = False)"
proof -
  have f: "findById P db ID = Inr None \<or> (\<exists>e. findById P db ID = Inl e)"
  proof (cases "castObjectId P ID")
    case None
    then show ?thesis by (simp add: findById_def)
  next
    case (Some oid)
    with none have "oid \<notin> set (map doc_id db)" by blast
    from find_absent [OF this] Some show ?thesis by (simp add: findById_def)
  qed
  have g: "\<exists>env. getUser P db ID (Some c) = Inr env \<and> status env = 500 \<and> success env = False"
    using admin f
    by (auto simp: getUser_def getUser_try_def role_of_def reply_def)
  have h: "\<exists>env. updateUser P R db ID inp (Some c) = (Inr env, db)
                 \<and> status env = 500 \<and> success env = False"
    using admin f
    by (auto simp: updateUser_def updateUser_try_def role_of_def reply_def)
  have k: "\<exists>env. deleteUser P db ID (Some c) = (Inr env, db)
                 \<and> status env = 500 \<and> success env = False"
    using admin f
    by (auto simp: deleteUser_def deleteUser_try_def findByIdAndDelete_def role_of_def
        reply_def)
  from g h k show ?thesis by blast
qed

text \<open>The amended theorem at an id that casts to an identifier no stored account has.\<close>

theorem missing_account_gives_500_witness:
  "(\<exists>env. getUser demo_platform demo_db ''6500000000000000000000a9'' (Some admin_ctx) = Inr env
          \<and> status env = 500 \<and> success env = False)
   \<and> (\<exists>env. updateUser demo_platform demo_draws demo_db ''6500000000000000000000a9'' None
               (Some admin_ctx) = (Inr env, demo_db)
          \<and> status env = 500 \<and> success env = False)
   \<and> (\<exists>env. deleteUser demo_platform demo_db ''6500000000000000000000a9'' (Some admin_ctx)
              = (Inr env, demo_db)
          \<and> status env = 500 \<and> success env = False)"
proof -
  have a: "ctx_user admin_ctx = Some demo_admin" by (simp add: admin_ctx_def)
  have r: "role demo_admin = ''Admin''" by (simp add: demo_admin_def)
  have n: "\<forall>oid. castObjectId demo_platform ''6500000000000000000000a9'' = Some oid
             \<longrightarrow> oid \<notin> set (map doc_id demo_db)"
    by (simp add: demo_platform_def demo_cast_ids demo_db_def demo_admin_def demo_alice_def)
  show ?thesis
    by (rule missing_account_gives_500 [OF a r n])
qed

section \<open>What \<^verbatim>\<open>updateUser\<close> can change\<close>

text \<open>
  Claim C9. Whatever the platform, the collection, the id, the input and the caller,
  after \<^verbatim>\<open>updateUser\<close> the collection holds the same ids, the same password hashes and
  the same roles, position by position, as before; and every document whose id is not
  the identifier that the given id casts to is unchanged. So only the username, the
  email and the address of the target account can differ.
\<close>

theorem updateUser_keeps_password_and_role:
  "map doc_id (snd (updateUser P R db ID inp ctx)) = map doc_id db
   \<and> map password (snd (updateUser P R db ID inp ctx)) = map password db
   \<and> map role (snd (updateUser P R db ID inp ctx)) = map role db
   \<and> filter (\<lambda>d. Some (doc_id d) \<noteq> castObjectId P ID) (snd (updateUser P R db ID inp ctx))
       = filter (\<lambda>d. Some (doc_id d) \<noteq> castObjectId P ID) db"
  using updateUser_store [of P R db ID inp ctx]
  by (auto simp: map_update_same filter_update_same_id)

text \<open>
  The theorem on an update that succeeds: the administrator renames \<open>alice\<close>, naming
  her by her id written in upper case. The stored usernames change, the password hashes
  and the roles do not, and the administrator's own document is untouched.
\<close>

theorem updateUser_keeps_password_and_role_witness:
  "map username (snd (updateUser demo_platform demo_draws demo_db ''6500000000000000000000A2''
        (Some \<lparr>username_up = Some ''alicia'', email_up = Some ''alice@example.com'',
               address_up = Some ''2 Side Street''\<rparr>) (Some admin_ctx)))
     = [Some ''root'', Some ''alicia'']
   \<and> map password (snd (updateUser demo_platform demo_draws demo_db ''6500000000000000000000A2''
        (Some \<lparr>username_up = Some ''alicia'', email_up = Some ''alice@example.com'',
               address_up = Some ''2 Side Street''\<rparr>) (Some admin_ctx)))
     = [Some ''salt0:rootpw'', Some ''salt1:alicepw'']
   \<and> map role (snd (updateUser demo_platform demo_draws demo_db ''6500000000000000000000A2''
        (Some \<lparr>username_up = Some ''alicia'', email_up = Some ''alice@example.com'',
               address_up = Some ''2 Side Street''\<rparr>) (Some admin_ctx)))
     = [''Admin'', ''User'']"
proof -
  have u: "map username (snd (updateUser demo_platform demo_draws demo_db
        ''6500000000000000000000A2''
        (Some \<lparr>username_up = Some ''alicia'', email_up = Some ''alice@example.com'',
               address_up = Some ''2 Side Street''\<rparr>) (Some admin_ctx)))
     = [Some ''root'', Some ''alicia'']"
    by (simp add: updateUser_def updateUser_try_def role_of_def
        findById_def hydrate_def set_username_def set_email_def set_address_def save_def
        validate_def required_failures_def checkRequired_def userSchema_def plain_path_def
        pre_save_def isModified_def updateOne_def reply_def demo_cast_ids demo_defs)
  have p: "map password demo_db = [Some ''salt0:rootpw'', Some ''salt1:alicepw'']"
    and r: "map role demo_db = [''Admin'', ''User'']"
    by (simp_all add: demo_db_def demo_admin_def demo_alice_def)
  show ?thesis
    using u p r
      updateUser_keeps_password_and_role [of demo_platform demo_draws demo_db
        "''6500000000000000000000A2''"
        "Some \<lparr>username_up = Some ''alicia'', email_up = Some ''alice@example.com'',
               address_up = Some ''2 Side Street''\<rparr>" "Some admin_ctx"]
    by simp
qed

section \<open>\<^verbatim>\<open>updateUser\<close> with an omitted field\<close>

text \<open>
  Claim C10 as stated fails: an omitted field is assigned to the loaded document, but
  the stored field is not overwritten. The schema requires the username, the email and
  the address, so \<^verbatim>\<open>save\<close> refuses the document, the resolver answers with status 500
  and the collection is what it was. Here the administrator updates \<open>alice\<close> and omits
  the username: the stored usernames are unchanged.
\<close>

theorem omitted_field_is_not_stored:
  "updateUser demo_platform demo_draws demo_db ''6500000000000000000000a2''
      (Some \<lparr>username_up = None, email_up = Some ''al@example.com'',
             address_up = Some ''9 New Road''\<rparr>) (Some admin_ctx)
     = (Inr ((reply 500 False)
          \<lparr>message := Some ''User validation failed: username: Path `username` is required.''\<rparr>), demo_db)
   \<and> map username demo_db = [Some ''root'', Some ''alice'']"
  by (simp add: updateUser_def updateUser_try_def role_of_def
      findById_def hydrate_def set_username_def set_email_def set_address_def save_def
      validate_def required_failures_def validation_message_def checkRequired_def userSchema_def
      plain_path_def reply_def demo_cast_ids demo_defs)

text \<open>
  Claim C10, amended. \<^verbatim>\<open>updateUser\<close> assigns the username, the email and the address
  of the input to the loaded document unconditionally, and there is no partial update:
  \<^item> when any of the three is omitted, the collection is left as it was, whoever calls;
    and for an administrator and an id that a stored account has, the answer is an
    envelope with status 500 and \<^verbatim>\<open>success: false\<close>;
  \<^item> when the answer has status 200, all three were supplied, and the returned account,
    which is also the account now stored at the id, has exactly the input's username,
    email and address.
\<close>

theorem updateUser_omitted_field_fails:
  "(username_up inp = None \<or> email_up inp = None \<or> address_up inp = None
      \<longrightarrow> snd (updateUser P R db ID (Some inp) ctx) = db
        \<and> (ctx_user c = Some u \<and> role u = ''Admin'' \<and> findById P db ID = Inr (Some found)
             \<longrightarrow> (\<exists>env. updateUser P R db ID (Some inp) (Some c) = (Inr env, db)
                        \<and> status env = 500 \<and> success env = False)))
   \<and> (updateUser P R db ID (Some inp) ctx = (Inr env', db') \<and> status env' = 200
      \<longrightarrow> (\<exists>x. user env' = Some x \<and> findById P db' ID = Inr (Some x)
               \<and> username x = username_up inp \<and> email x = email_up inp
               \<and> address x = address_up inp
               \<and> username_up inp \<noteq> None \<and> email_up inp \<noteq> None \<and> address_up inp \<noteq> None))"
proof -
  have A: "snd (updateUser P R db ID (Some inp) ctx) = db"
    if "username_up inp = None \<or> email_up inp = None \<or> address_up inp = None"
  proof -
    have ns: "save P userSchema R db (set_address (address_up inp) (set_email (email_up inp)
            (set_username (username_up inp) (hydrate f)))) \<noteq> Inr r" for f r
      using that save_missing_required [of "set_address (address_up inp)
          (set_email (email_up inp) (set_username (username_up inp) (hydrate f)))" P R db]
      by (auto simp: assigned_contents)
    show ?thesis
      by (auto simp: updateUser_def updateUser_try_def ns
          split: option.splits sum.splits if_splits)
  qed
  have B: "\<exists>env. updateUser P R db ID (Some inp) (Some c) = (Inr env, db)
                        \<and> status env = 500 \<and> success env = False"
    if "username_up inp = None \<or> email_up inp = None \<or> address_up inp = None"
      and "ctx_user c = Some u" "role u = ''Admin''" "findById P db ID = Inr (Some found)"
  proof -
    have "\<exists>m. save P userSchema R db (set_address (address_up inp) (set_email (email_up inp)
            (set_username (username_up inp) (hydrate found)))) = Inl (ValidationError m)"
      using that(1) save_missing_required [of "set_address (address_up inp)
          (set_email (email_up inp) (set_username (username_up inp) (hydrate found)))" P R db]
      by (auto simp: assigned_contents)
    then show ?thesis using that(2-)
      by (auto simp: updateUser_def updateUser_try_def role_of_def reply_def)
  qed
  have C: "\<exists>x. user env' = Some x \<and> findById P db' ID = Inr (Some x)
               \<and> username x = username_up inp \<and> email x = email_up inp
               \<and> address x = address_up inp
               \<and> username_up inp \<noteq> None \<and> email_up inp \<noteq> None \<and> address_up inp \<noteq> None"
    if r: "updateUser P R db ID (Some inp) ctx = (Inr env', db')" and s: "status env' = 200"
  proof -
    from r s have "\<exists>found saved. findById P db ID = Inr (Some found) \<and>
        save P userSchema R db (set_address (address_up inp) (set_email (email_up inp)
           (set_username (username_up inp) (hydrate found)))) = Inr (saved, db')
        \<and> user env' = Some (contents saved)"
      by (auto simp: updateUser_def updateUser_try_def reply_def
          forbidden_def split: option.splits sum.splits if_splits)
    then obtain found saved where
        fnd: "findById P db ID = Inr (Some found)" and
        sv: "save P userSchema R db (set_address (address_up inp) (set_email (email_up inp)
           (set_username (username_up inp) (hydrate found)))) = Inr (saved, db')" and
        us: "user env' = Some (contents saved)"
      by blast
    let ?d = "set_address (address_up inp) (set_email (email_up inp)
           (set_username (username_up inp) (hydrate found)))"
    from fnd obtain oid where cast: "castObjectId P ID = Some oid"
        and ff: "find (\<lambda>d. doc_id d = oid) db = Some found"
      by (auto simp: findById_def split: option.splits)
    from ff have idf: "doc_id found = oid" by (auto simp: find_Some_iff)
    from ff obtain k where k: "index_of oid db = Some k"
      using index_of_none [of oid db] by (cases "index_of oid db") auto
    from save_loaded [OF sv assigned_flags] k idf
    have cs: "contents saved = contents ?d" and db': "db' = db[k := contents ?d]"
      by (auto simp: assigned_contents)
    have "find (\<lambda>d. doc_id d = oid) db' = Some (contents ?d)"
      unfolding db' using k idf by (intro find_update_first) (auto simp: assigned_contents)
    with cast have "findById P db' ID = Inr (Some (contents saved))"
      by (simp add: findById_def cs)
    moreover from save_ok_required [OF sv]
    have "username_up inp \<noteq> None \<and> email_up inp \<noteq> None \<and> address_up inp \<noteq> None"
      by (simp add: assigned_contents)
    ultimately show ?thesis using us cs by (simp add: assigned_contents)
  qed
  from A B C show ?thesis by blast
qed

text \<open>
  The amended theorem on two updates of \<open>alice\<close> by the administrator: one that omits
  the username, and one that supplies all three fields.
\<close>

theorem updateUser_omitted_field_fails_witness:
  "snd (updateUser demo_platform demo_draws demo_db ''6500000000000000000000a2''
          (Some \<lparr>username_up = None, email_up = Some ''al@example.com'',
                 address_up = Some ''9 New Road''\<rparr>) (Some admin_ctx)) = demo_db
   \<and> (\<exists>env. updateUser demo_platform demo_draws demo_db ''6500000000000000000000a2''
          (Some \<lparr>username_up = None, email_up = Some ''al@example.com'',
                 address_up = Some ''9 New Road''\<rparr>) (Some admin_ctx) = (Inr env, demo_db)
        \<and> status env = 500 \<and> success env = False)
   \<and> (\<exists>x. findById demo_platform
              [demo_admin, demo_alice\<lparr>username := Some ''alicia'', email := Some ''al@example.com'',
                                      address := Some ''9 New Road''\<rparr>]
              ''6500000000000000000000a2'' = Inr (Some x)
        \<and> username x = Some ''alicia'' \<and> email x = Some ''al@example.com''
        \<and> address x = Some ''9 New Road'')"
proof -
  let ?omitted = "\<lparr>username_up = None, email_up = Some ''al@example.com'',
                   address_up = Some ''9 New Road''\<rparr>"
  let ?full = "\<lparr>username_up = Some ''alicia'', email_up = Some ''al@example.com'',
                address_up = Some ''9 New Road''\<rparr>"
  let ?alicia = "demo_alice\<lparr>username := Some ''alicia'', email := Some ''al@example.com'',
                             address := Some ''9 New Road''\<rparr>"
  let ?env = "(reply 200 True)\<lparr>message := Some ''User updated successfully'',
                                user := Some ?alicia\<rparr>"
  have o: "username_up ?omitted = None \<or> email_up ?omitted = None \<or> address_up ?omitted = None"
    by simp
  have a: "ctx_user admin_ctx = Some demo_admin \<and> role demo_admin = ''Admin''
           \<and> findById demo_platform demo_db ''6500000000000000000000a2'' = Inr (Some demo_alice)"
    by (simp add: findById_def demo_cast_ids demo_defs)
  have f: "updateUser demo_platform demo_draws demo_db ''6500000000000000000000a2''
             (Some ?full) (Some admin_ctx) = (Inr ?env, [demo_admin, ?alicia])
           \<and> status ?env = 200"
    by (simp add: updateUser_def updateUser_try_def role_of_def
        findById_def hydrate_def set_username_def set_email_def set_address_def save_def
        validate_def required_failures_def checkRequired_def userSchema_def plain_path_def
        pre_save_def isModified_def updateOne_def reply_def demo_cast_ids demo_defs)
  show ?thesis
    using o a f
      updateUser_omitted_field_fails [where inp = ?omitted and P = demo_platform
        and R = demo_draws and db = demo_db and ID = "''6500000000000000000000a2''"
        and ctx = "Some admin_ctx" and c = admin_ctx and u = demo_admin and found = demo_alice]
      updateUser_omitted_field_fails [where inp = ?full and P = demo_platform
        and R = demo_draws and db = demo_db and ID = "''6500000000000000000000a2''"
        and ctx = "Some admin_ctx" and env' = ?env and db' = "[demo_admin, ?alicia]"]
    by simp
qed

end
